theory Spec2Isabelle
  imports Main "HOL-Library.Word"
begin

chapter \<open>The user store of \<open>user_database.py\<close>\<close>

text \<open>
  A model of the module \<open>src/backend/src/db/user_database.py\<close>: the class \<open>User\<close>
  with its validation and its password hash, and the class \<open>UserDatabase\<close>, a mapping
  from cpf to user that is kept in one file. The definitions follow the source method by
  method. What the module calls in \<open>re\<close> is modelled by combinators for the constructs
  its patterns use; what it calls in \<open>hmac\<close>, \<open>bcrypt\<close> and \<open>jsonpickle\<close> is a
  parameter of the model, and so is whether \<open>open\<close> succeeds on a path. The theorems
  settle the claims C1 to C10 made about the module.
\<close>

section \<open>Strings and the regular expressions of the module\<close>

text \<open>
  A Python \<open>str\<close> is modelled as a \<open>string\<close>: a list of characters, each one code point
  below 256, so \<open>length\<close> is Python's \<open>len\<close>. The four patterns of \<open>user_database.py\<close> are
  written with the combinators below, one combinator per construct of Python's \<open>re\<close>.
  A pattern maps the text still to be read to the list of texts that may remain after it
  has matched a prefix; the empty list means that it cannot match there.
\<close>

type_synonym pattern = "string \<Rightarrow> string list"

text \<open>\<open>[lo-hi]\<close>: a range of a character class, compared by code point.\<close>

definition in_range :: "char \<Rightarrow> char \<Rightarrow> char \<Rightarrow> bool" where
  "in_range lo hi c = ((of_char lo :: nat) \<le> of_char c \<and> (of_char c :: nat) \<le> of_char hi)"

text \<open>\<open>[0-9]\<close> and \<open>[a-zA-Z]\<close>.\<close>

definition digit :: "char \<Rightarrow> bool" where
  "digit c = in_range CHR ''0'' CHR ''9'' c"

definition letter :: "char \<Rightarrow> bool" where
  "letter c = (in_range CHR ''a'' CHR ''z'' c \<or> in_range CHR ''A'' CHR ''Z'' c)"

text \<open>\<open>.\<close> without the DOTALL flag: any character except the newline.\<close>

definition dot :: "char \<Rightarrow> bool" where
  "dot c = (c \<noteq> CHR 0x0A)"

text \<open>
  \<open>\w\<close> of a \<open>str\<close> pattern: the underscore and every character that \<open>str.isalnum\<close>
  accepts. Below code point 256 these are the ASCII letters and digits, the Latin-1
  letters (all of 192..255 but the signs at 215 and 247), and the code points 170, 178,
  179, 181, 185, 186, 188, 189 and 190.
\<close>

definition word_char :: "char \<Rightarrow> bool" where
  "word_char c =
     (let n = (of_char c :: nat) in
        digit c \<or> letter c \<or> c = CHR ''_''
        \<or> n \<in> {170, 178, 179, 181, 185, 186, 188, 189, 190}
        \<or> (192 \<le> n \<and> n \<noteq> 215 \<and> n \<noteq> 247))"

text \<open>\<open>[\w\.]\<close>.\<close>

definition word_or_dot :: "char \<Rightarrow> bool" where
  "word_or_dot c = (word_char c \<or> c = CHR ''.'')"

text \<open>One character of a class, and one literal character.\<close>

fun cls :: "(char \<Rightarrow> bool) \<Rightarrow> pattern" where
  "cls P [] = []"
| "cls P (c # r) = (if P c then [r] else [])"

definition lit :: "char \<Rightarrow> pattern" where
  "lit a = cls (\<lambda>c. c = a)"

text \<open>Concatenation: the second pattern reads on from wherever the first can stop.\<close>

definition seq :: "pattern \<Rightarrow> pattern \<Rightarrow> pattern" where
  "seq p q s = concat (map q (p s))"

fun cat :: "pattern list \<Rightarrow> pattern" where
  "cat [] s = [s]"
| "cat (p # ps) s = seq p (cat ps) s"

text \<open>\<open>p{n}\<close>: exactly \<open>n\<close> times.\<close>

fun times :: "nat \<Rightarrow> pattern \<Rightarrow> pattern" where
  "times 0 p s = [s]"
| "times (Suc n) p s = seq p (times n p) s"

text \<open>
  \<open>[class]*\<close>: every place reached by reading zero or more characters of the class, so
  that what follows may backtrack over them.
\<close>

fun many :: "(char \<Rightarrow> bool) \<Rightarrow> pattern" where
  "many P [] = [[]]"
| "many P (c # r) = (c # r) # (if P c then many P r else [])"

text \<open>\<open>[class]+\<close> and \<open>[class]{n,}\<close>.\<close>

definition many1 :: "(char \<Rightarrow> bool) \<Rightarrow> pattern" where
  "many1 P = seq (cls P) (many P)"

definition at_least :: "nat \<Rightarrow> (char \<Rightarrow> bool) \<Rightarrow> pattern" where
  "at_least n P = seq (times n (cls P)) (many P)"

text \<open>
  \<open>$\<close> without the MULTILINE flag: the end of the string, or just before a newline that
  is the last character of the string. It reads nothing.
\<close>

definition eol :: pattern where
  "eol s = (if s = [] \<or> s = [CHR 0x0A] then [s] else [])"

text \<open>\<open>(?=p)\<close>: succeeds where \<open>p\<close> can match, and reads nothing.\<close>

definition lookahead :: "pattern \<Rightarrow> pattern" where
  "lookahead p s = (if p s = [] then [] else [s])"

text \<open>
  \<open>pattern.match(s)\<close>: the pattern matches some prefix of \<open>s\<close>, from its first character.
  The result is the truth value of the match object. The \<open>^\<close> that opens three of the
  patterns holds at that position and is therefore not written.
\<close>

definition re_match :: "pattern \<Rightarrow> string \<Rightarrow> bool" where
  "re_match p s = (p s \<noteq> [])"

text \<open>\<^verbatim>\<open>cpf_pattern = re.compile(r"^[0-9]{3}\.[0-9]{3}\.[0-9]{3}\-[0-9]{2}$")\<close>\<close>

definition cpf_pattern :: pattern where
  "cpf_pattern =
     cat [times 3 (cls digit), lit CHR ''.'', times 3 (cls digit), lit CHR ''.'',
          times 3 (cls digit), lit CHR ''-'', times 2 (cls digit), eol]"

text \<open>\<^verbatim>\<open>cep_pattern = re.compile(r"^[0-9]{5}\-[0-9]{3}$")\<close>\<close>

definition cep_pattern :: pattern where
  "cep_pattern = cat [times 5 (cls digit), lit CHR ''-'', times 3 (cls digit), eol]"

text \<open>\<^verbatim>\<open>email_pattern = re.compile(r"^[\w\.]+@[\w\.]+$")\<close>\<close>

definition email_pattern :: pattern where
  "email_pattern = cat [many1 word_or_dot, lit CHR ''@'', many1 word_or_dot, eol]"

text \<open>\<^verbatim>\<open>senha_pattern = re.compile(r"(?=.{8,})(?=.*[0-9].*)(?=.*[a-zA-Z].*)")\<close>\<close>

definition senha_pattern :: pattern where
  "senha_pattern =
     cat [lookahead (at_least 8 dot),
          lookahead (cat [many dot, cls digit, many dot]),
          lookahead (cat [many dot, cls letter, many dot])]"

section \<open>The user record\<close>

text \<open>
  \<open>datetime.date\<close> is a year, a month and a day. The digest of HMAC-SHA512 is 64 bytes,
  a word of 512 bits; the hash that bcrypt stores is a byte string.
\<close>

type_synonym date = "nat \<times> nat \<times> nat"
type_synonym digest = "512 word"
type_synonym bytes = string

record User =
  username :: string
  nome :: string
  sobrenome :: string
  cpf :: string
  endereco :: "string option"
  CEP :: "string option"
  data_de_nascimento :: date
  email :: string
  senha :: bytes
  user_id :: int

text \<open>
  The functions the class imports from \<open>hmac\<close>, \<open>hashlib\<close> and \<open>bcrypt\<close>, and the built-in
  \<open>hash\<close>, are parameters of the model:
  \<^item> \<open>hmac_sha512 key msg\<close> is \<^verbatim>\<open>hmac.new(key.encode(), msg.encode(), hashlib.sha512).digest()\<close>;
  \<^item> \<open>hashpw\<close> and \<open>checkpw\<close> are bcrypt's;
  \<^item> \<open>py_hash\<close> is \<open>hash\<close> on the triple of the timestamp, the cpf and the username.
  What \<open>gensalt()\<close> and \<open>datetime.datetime.now()\<close> return is given to the constructor
  as the arguments \<open>salt\<close> and \<open>now\<close>.
\<close>

record library =
  hmac_sha512 :: "string \<Rightarrow> string \<Rightarrow> digest"
  hashpw :: "digest \<Rightarrow> bytes \<Rightarrow> bytes"
  checkpw :: "digest \<Rightarrow> bytes \<Rightarrow> bool"
  py_hash :: "nat \<times> string \<times> string \<Rightarrow> int"

text \<open>
  \<open>User.__new__\<close>: the four checks in the order of the source; \<open>None\<close> when one fails,
  the new blank object otherwise.
\<close>

definition User_new ::
  "string \<Rightarrow> string \<Rightarrow> string \<Rightarrow> string \<Rightarrow> date \<Rightarrow> string \<Rightarrow> string
     \<Rightarrow> string option \<Rightarrow> string option \<Rightarrow> unit option" where
  "User_new username' nome' sobrenome' cpf' data' email' senha' endereco' CEP' =
     (if \<not> re_match cpf_pattern cpf' then None
      else if CEP' \<noteq> None \<and> \<not> re_match cep_pattern (the CEP') then None
      else if \<not> re_match email_pattern email' then None
      else if \<not> re_match senha_pattern senha' then None
      else Some ())"

text \<open>\<open>User.add_password\<close>: the record with its \<open>senha\<close> replaced.\<close>

definition add_password :: "library \<Rightarrow> bytes \<Rightarrow> User \<Rightarrow> string \<Rightarrow> User" where
  "add_password L salt self senha' =
     (let hash = hmac_sha512 L (cpf self) senha'
      in self\<lparr>senha := hashpw L hash salt\<rparr>)"


text \<open>
  \<open>User.__init__\<close>: the fields in the order of the source. The password is set by
  \<open>add_password\<close> on the object that already holds the cpf.
\<close>

definition User_init ::
  "library \<Rightarrow> nat \<Rightarrow> bytes \<Rightarrow> string \<Rightarrow> string \<Rightarrow> string \<Rightarrow> string \<Rightarrow> date \<Rightarrow> string \<Rightarrow> string
     \<Rightarrow> string option \<Rightarrow> string option \<Rightarrow> User" where
  "User_init L now salt username' nome' sobrenome' cpf' data' email' senha' endereco' CEP' =
     (let self = \<lparr>username = username', nome = nome', sobrenome = sobrenome', cpf = cpf',
                  endereco = endereco', CEP = CEP', data_de_nascimento = data',
                  email = email', senha = [], user_id = 0\<rparr>;
          self = add_password L salt self senha'
      in self\<lparr>user_id := abs (py_hash L (now, cpf self, username self))\<rparr>)"

text \<open>
  The call \<open>User(...)\<close>: \<open>__init__\<close> runs on what \<open>__new__\<close> returned when that is an
  object of the class, and the call yields \<open>None\<close> when \<open>__new__\<close> did.
\<close>

definition User_call ::
  "library \<Rightarrow> nat \<Rightarrow> bytes \<Rightarrow> string \<Rightarrow> string \<Rightarrow> string \<Rightarrow> string \<Rightarrow> date \<Rightarrow> string \<Rightarrow> string
     \<Rightarrow> string option \<Rightarrow> string option \<Rightarrow> User option" where
  "User_call L now salt username' nome' sobrenome' cpf' data' email' senha' endereco' CEP' =
     (case User_new username' nome' sobrenome' cpf' data' email' senha' endereco' CEP' of
        None \<Rightarrow> None
      | Some obj \<Rightarrow>
          Some (User_init L now salt username' nome' sobrenome' cpf' data' email' senha'
                  endereco' CEP'))"

section \<open>The store\<close>

text \<open>
  A Python \<open>dict\<close> keeps its keys in insertion order, and \<open>get_user_by_username\<close> returns
  the first record that its scan meets: the mapping is an association list with the
  operations of \<open>dict\<close>. Its values are the records that the annotation \<open>dict[User]\<close>
  declares.
\<close>

type_synonym dict = "(string \<times> User) list"

text \<open>\<open>d.get(k)\<close>.\<close>

definition dict_get :: "dict \<Rightarrow> string \<Rightarrow> User option" where
  "dict_get d k = map_of d k"

text \<open>\<open>d[k] = v\<close>: an existing key keeps its place, a new key goes last.\<close>

fun dict_setitem :: "dict \<Rightarrow> string \<Rightarrow> User \<Rightarrow> dict" where
  "dict_setitem [] k v = [(k, v)]"
| "dict_setitem ((k', v') # d) k v =
     (if k' = k then (k', v) # d else (k', v') # dict_setitem d k v)"



text \<open>
  What the store finds around it is a parameter of the model: \<open>jsonpickle\<close> and the
  answer of the operating system to \<open>open\<close>.
  \<^item> \<open>encode\<close> is \<open>jsonpickle.encode\<close> on the mapping.
  \<^item> \<open>decode\<close> is \<open>jsonpickle.decode\<close>: it raises on a text it cannot read, and
    otherwise returns an object, which is a \<open>dict\<close> or is not.
  \<^item> \<open>can_open path\<close> says that \<open>open(path)\<close> and \<open>open(path, 'w+')\<close> succeed: the
    directory of the path exists and the file may be read and written. Where it is
    false, \<open>open\<close> raises an \<open>OSError\<close> (\<open>FileNotFoundError\<close>, \<open>PermissionError\<close>).
\<close>

datatype decoded = Raises | A_dict dict | Not_a_dict

record environment =
  encode :: "dict \<Rightarrow> string"
  decode :: "string \<Rightarrow> decoded"
  can_open :: "string \<Rightarrow> bool"

text \<open>
  The exceptions of the model: the one \<open>jsonpickle.decode\<close> raises and the one
  \<open>open\<close> raises. The module has no handler, so an exception leaves the method in which
  it is raised and every method that called it.
\<close>

datatype exn = Decode_error | OS_error

text \<open>
  The store object, and the files of the machine: a path has the text of its file, or no
  file. A method takes the files and the object. It returns them as it leaves them,
  with its value (\<open>Inr\<close>) or with the exception it raises (\<open>Inl\<close>).
\<close>

record UserDatabase =
  db :: dict
  file_path :: string

type_synonym files = "string \<rightharpoonup> string"
type_synonym world = "files \<times> UserDatabase"

text \<open>The values of the pair that \<open>add_user\<close> returns: a \<open>bool\<close> and a \<open>str\<close>.\<close>

datatype pyval = PyBool bool | PyStr string

text \<open>
  \<open>UserDatabase.write_to_file\<close>: the mapping is encoded, then \<open>open(path, 'w+')\<close>
  creates or truncates the file, or raises and leaves the files as they are.
\<close>

definition write_to_file :: "environment \<Rightarrow> world \<Rightarrow> exn \<times> world + world" where
  "write_to_file J w =
     (case w of (fs, self) \<Rightarrow>
        (let objetos = encode J (db self)
         in if \<not> can_open J (file_path self) then Inl (OS_error, (fs, self))
            else Inr (fs(file_path self \<mapsto> objetos), self)))"

text \<open>
  \<open>UserDatabase.try_read_from_file\<close>. With no file at the path it writes one and
  returns. Otherwise it opens the file, reads it and decodes the text; \<open>self.db\<close> is
  assigned last, and only when the object decoded is a \<open>dict\<close>.
\<close>

definition try_read_from_file :: "environment \<Rightarrow> world \<Rightarrow> exn \<times> world + world" where
  "try_read_from_file J w =
     (case w of (fs, self) \<Rightarrow>
        (case fs (file_path self) of
           None \<Rightarrow> write_to_file J (fs, self)
         | Some objetos \<Rightarrow>
             if \<not> can_open J (file_path self) then Inl (OS_error, (fs, self))
             else
               (case decode J objetos of
                  Raises \<Rightarrow> Inl (Decode_error, (fs, self))
                | A_dict d \<Rightarrow> Inr (fs, self\<lparr>db := d\<rparr>)
                | Not_a_dict \<Rightarrow> Inr (fs, self))))"


text \<open>\<open>UserDatabase.get_user_by_cpf\<close>.\<close>

definition get_user_by_cpf ::
  "environment \<Rightarrow> world \<Rightarrow> string \<Rightarrow> bool \<Rightarrow> exn \<times> world + User option \<times> world" where
  "get_user_by_cpf J w cpf' update =
     (case (if update then try_read_from_file J w else Inr w) of
        Inl e \<Rightarrow> Inl e
      | Inr (fs, self) \<Rightarrow> Inr (dict_get (db self) cpf', (fs, self)))"

text \<open>The loop of \<open>get_user_by_username\<close> over \<open>self.db.items()\<close>.\<close>

fun scan_username :: "dict \<Rightarrow> string \<Rightarrow> User option" where
  "scan_username [] username' = None"
| "scan_username ((key, val) # items) username' =
     (if username val = username' then Some val else scan_username items username')"

text \<open>\<open>UserDatabase.get_user_by_username\<close>.\<close>

definition get_user_by_username ::
  "environment \<Rightarrow> world \<Rightarrow> string \<Rightarrow> bool \<Rightarrow> exn \<times> world + User option \<times> world" where
  "get_user_by_username J w username' update =
     (case (if update then try_read_from_file J w else Inr w) of
        Inl e \<Rightarrow> Inl e
      | Inr (fs, self) \<Rightarrow> Inr (scan_username (db self) username', (fs, self)))"

text \<open>The loop of \<open>get_user_by_id\<close>, and the method.\<close>

fun scan_id :: "dict \<Rightarrow> int \<Rightarrow> User option" where
  "scan_id [] id' = None"
| "scan_id ((key, val) # items) id' =
     (if user_id val = id' then Some val else scan_id items id')"

definition get_user_by_id ::
  "environment \<Rightarrow> world \<Rightarrow> int \<Rightarrow> bool \<Rightarrow> exn \<times> world + User option \<times> world" where
  "get_user_by_id J w id' update =
     (case (if update then try_read_from_file J w else Inr w) of
        Inl e \<Rightarrow> Inl e
      | Inr (fs, self) \<Rightarrow> Inr (scan_id (db self) id', (fs, self)))"


text \<open>
  \<open>UserDatabase.add_user\<close>. A \<open>User\<close> object defines neither \<open>__bool__\<close> nor \<open>__len__\<close>,
  so the two \<open>if\<close> tests hold exactly when the lookup did not return \<open>None\<close>. The record
  is put in the mapping before the file is written: when the write raises, the mapping
  in memory already holds it.
\<close>

definition add_user ::
  "environment \<Rightarrow> world \<Rightarrow> User \<Rightarrow> bool \<Rightarrow> exn \<times> world + (pyval \<times> pyval) \<times> world" where
  "add_user J w user update =
     (case (if update then try_read_from_file J w else Inr w) of
        Inl e \<Rightarrow> Inl e
      | Inr w1 \<Rightarrow>
          (case get_user_by_cpf J w1 (cpf user) False of
             Inl e \<Rightarrow> Inl e
           | Inr (by_cpf, w2) \<Rightarrow>
               if by_cpf \<noteq> None then Inr ((PyBool False, PyStr ''CPF''), w2)
               else
                 (case get_user_by_username J w2 (nome user) False of
                    Inl e \<Rightarrow> Inl e
                  | Inr (by_username, (fs, self)) \<Rightarrow>
                      if by_username \<noteq> None then Inr ((PyBool False, PyStr ''USER''), (fs, self))
                      else
                        (case write_to_file J
                                (fs, self\<lparr>db := dict_setitem (db self) (cpf user) user\<rparr>) of
                           Inl e \<Rightarrow> Inl e
                         | Inr w3 \<Rightarrow> Inr ((PyBool True, PyStr ''SUCCESS''), w3)))))"

text \<open>\<open>UserDatabase.signup\<close>.\<close>

definition signup ::
  "environment \<Rightarrow> world \<Rightarrow> User \<Rightarrow> exn \<times> world + (pyval \<times> pyval) \<times> world" where
  "signup J w user =
     (case add_user J w user True of
        Inl e \<Rightarrow> Inl e
      | Inr ((success, reason), w') \<Rightarrow> Inr ((success, reason), w'))"


section \<open>The format of the specification\<close>

text \<open>
  The specification writes the format of the national identifier as \<open>NNN.NNN.NNN-NN\<close>:
  three groups of three digits separated by dots, a hyphen, then two digits. This
  predicate follows those words, to be compared with \<open>cpf_pattern\<close> of the source: an
  \<open>N\<close> of the format stands for one digit, every other character for itself.
\<close>

definition format_char :: "char \<Rightarrow> char \<Rightarrow> bool" where
  "format_char f c = (if f = CHR ''N'' then digit c else c = f)"

definition spec_cpf_format :: "string \<Rightarrow> bool" where
  "spec_cpf_format s = list_all2 format_char ''NNN.NNN.NNN-NN'' s"

section \<open>Sample data\<close>

text \<open>
  Concrete records, a small library and small surroundings, on which the theorems below
  are run. The sample digest reads the key and the message as one number in base 256,
  so that two different passwords of up to forty characters have different digests under
  the sample keys. The sample \<open>hashpw\<close> writes the 512 bits of the digest before the
  salt and the sample \<open>checkpw\<close> compares those bits. The sample pickler writes the keys
  and usernames of a mapping, reads back the mappings of \<open>sample_dicts\<close>, reads \<open>[]\<close>
  as a list and raises on every other text; every path can be opened but
  \<open>nodir/users.json\<close>, whose directory does not exist.
\<close>

definition sample_digest :: "string \<Rightarrow> string \<Rightarrow> digest" where
  "sample_digest key msg =
     of_nat (foldl (\<lambda>a c. a * 256 + of_char c) (foldl (\<lambda>a c. a * 256 + of_char c) 1 key) msg)"

definition digest_bits :: "digest \<Rightarrow> bytes" where
  "digest_bits d = map (\<lambda>i. if bit d i then CHR ''1'' else CHR ''0'') [0..<512]"

definition sample_library :: library where
  "sample_library =
     \<lparr>hmac_sha512 = sample_digest,
      hashpw = (\<lambda>d salt. digest_bits d @ salt),
      checkpw = (\<lambda>d h. take 512 h = digest_bits d),
      py_hash = (\<lambda>(now, c, u). int (length c + length u) - int now)\<rparr>"

definition ana :: User where
  "ana = \<lparr>username = ''ana'', nome = ''Ana'', sobrenome = ''Silva'',
          cpf = ''111.111.111-11'', endereco = None, CEP = None,
          data_de_nascimento = (1990, 1, 1), email = ''ana@x.com'',
          senha = ''$2b$12$ana'', user_id = 11\<rparr>"

definition bob :: User where
  "bob = \<lparr>username = ''bob'', nome = ''ana'', sobrenome = ''Souza'',
          cpf = ''222.222.222-22'', endereco = None, CEP = Some ''50000-000'',
          data_de_nascimento = (1985, 5, 20), email = ''bob@x.com'',
          senha = ''$2b$12$bob'', user_id = 22\<rparr>"

definition carla :: User where
  "carla = \<lparr>username = ''carla'', nome = ''Carla'', sobrenome = ''Lima'',
            cpf = ''222.222.222-22'', endereco = Some ''Recife'', CEP = None,
            data_de_nascimento = (2000, 12, 31), email = ''carla@x.com'',
            senha = ''$2b$12$carla'', user_id = 33\<rparr>"

definition sample_dicts :: "dict list" where
  "sample_dicts =
     [[], [(cpf ana, ana)], [(cpf ana, ana), (cpf carla, carla)], [(cpf bob, bob)]]"

definition sample_encode :: "dict \<Rightarrow> string" where
  "sample_encode d =
     ''{'' @ concat (map (\<lambda>(k, v). k @ '':'' @ username v @ '';'') d) @ ''}''"

definition sample_decode :: "string \<Rightarrow> decoded" where
  "sample_decode s =
     (if s = ''[]'' then Not_a_dict
      else case find (\<lambda>d. sample_encode d = s) sample_dicts of
             Some d \<Rightarrow> A_dict d
           | None \<Rightarrow> Raises)"

definition sample_pickle :: environment where
  "sample_pickle =
     \<lparr>encode = sample_encode, decode = sample_decode,
      can_open = (\<lambda>path. path \<noteq> ''nodir/users.json'')\<rparr>"

definition sample_path :: string where
  "sample_path = ''users.json''"

text \<open>A store that holds \<open>ana\<close>, and the files in which its mapping is persisted.\<close>

definition sample_store :: UserDatabase where
  "sample_store = \<lparr>db = [(cpf ana, ana)], file_path = sample_path\<rparr>"

definition sample_files :: files where
  "sample_files = [sample_path \<mapsto> sample_encode [(cpf ana, ana)]]"

text \<open>The same store and files once \<open>carla\<close> has been added.\<close>

definition sample_store_2 :: UserDatabase where
  "sample_store_2 = \<lparr>db = [(cpf ana, ana), (cpf carla, carla)], file_path = sample_path\<rparr>"

definition sample_files_2 :: files where
  "sample_files_2 = [sample_path \<mapsto> sample_encode [(cpf ana, ana), (cpf carla, carla)]]"

lemmas sample_defs = sample_library_def sample_digest_def digest_bits_def ana_def bob_def carla_def sample_dicts_def
  sample_encode_def sample_decode_def sample_pickle_def sample_path_def sample_store_def
  sample_files_def sample_store_2_def sample_files_2_def

section \<open>What the patterns accept\<close>

lemma seq_nonempty: "seq p q s \<noteq> [] \<longleftrightarrow> (\<exists>r\<in>set (p s). q r \<noteq> [])"
  by (auto simp: seq_def)

lemma seq_fun: "seq p q = (\<lambda>s. concat (map q (p s)))"
  by (rule ext) (simp add: seq_def)

lemma seq_assoc: "seq (seq p q) r = seq p (seq q r)"
proof -
  have "concat (map r (concat (map q xs))) = concat (map (\<lambda>x. concat (map r (q x))) xs)" for xs
    by (induction xs) simp_all
  then show ?thesis by (simp add: seq_fun)
qed

lemma cls_nonempty: "r \<in> set (cls P s) \<longleftrightarrow> (\<exists>c. s = c # r \<and> P c)"
  by (cases s) auto

lemma cat_cls: "cat (cls P # ps) s \<noteq> [] \<longleftrightarrow> (\<exists>c r. s = c # r \<and> P c \<and> cat ps r \<noteq> [])"
  by (cases s) (auto simp: seq_def)

lemma cat_Cons: "cat (p # ps) = seq p (cat ps)"
  by (rule ext) simp

lemma times_Suc: "times (Suc n) p = seq p (times n p)"
  by (rule ext) simp

lemma cat_times: "cat (times n p # ps) = cat (replicate n p @ ps)"
proof (induction n)
  case 0
  show ?case by (rule ext) (simp add: seq_def)
next
  case (Suc n)
  have "cat (times (Suc n) p # ps) = seq (seq p (times n p)) (cat ps)"
    by (simp only: cat_Cons times_Suc)
  also have "\<dots> = seq p (seq (times n p) (cat ps))"
    by (rule seq_assoc)
  also have "\<dots> = seq p (cat (replicate n p @ ps))"
    using Suc.IH by (simp only: cat_Cons)
  finally show ?case by (simp only: cat_Cons replicate_Suc append_Cons)
qed

lemma cat_eol: "cat [eol] s \<noteq> [] \<longleftrightarrow> s = [] \<or> s = [CHR 0x0A]"
  by (simp add: seq_def eol_def)

lemma cat_format:
  "cat (map (\<lambda>f. cls (format_char f)) fs @ [eol]) s \<noteq> [] \<longleftrightarrow>
     list_all2 format_char fs s \<or> (\<exists>t. s = t @ [CHR 0x0A] \<and> list_all2 format_char fs t)"
proof (induction fs arbitrary: s)
  case Nil
  show ?case using cat_eol [of s] by auto
next
  case (Cons f fs)
  have "cat (map (\<lambda>f. cls (format_char f)) (f # fs) @ [eol]) s \<noteq> [] \<longleftrightarrow>
        (\<exists>c r. s = c # r \<and> format_char f c \<and> cat (map (\<lambda>f. cls (format_char f)) fs @ [eol]) r \<noteq> [])"
    using cat_cls [of "format_char f" "map (\<lambda>f. cls (format_char f)) fs @ [eol]" s] by simp
  also have "\<dots> \<longleftrightarrow> (\<exists>c r. s = c # r \<and> format_char f c \<and>
        (list_all2 format_char fs r \<or> (\<exists>t. r = t @ [CHR 0x0A] \<and> list_all2 format_char fs t)))"
    using Cons.IH by simp
  also have "\<dots> \<longleftrightarrow> list_all2 format_char (f # fs) s \<or> (\<exists>t. s = t @ [CHR 0x0A] \<and> list_all2 format_char (f # fs) t)"
    (is "?L \<longleftrightarrow> ?R")
  proof
    assume ?L
    then obtain c r where s: "s = c # r" and c: "format_char f c"
      and r: "list_all2 format_char fs r \<or> (\<exists>t. r = t @ [CHR 0x0A] \<and> list_all2 format_char fs t)"
      by blast
    from r show ?R
    proof
      assume "list_all2 format_char fs r"
      with s c show ?R by simp
    next
      assume "\<exists>t. r = t @ [CHR 0x0A] \<and> list_all2 format_char fs t"
      then obtain t where "r = t @ [CHR 0x0A]" "list_all2 format_char fs t" by blast
      with s c have "s = (c # t) @ [CHR 0x0A] \<and> list_all2 format_char (f # fs) (c # t)" by simp
      then show ?R by blast
    qed
  next
    assume ?R
    then show ?L
    proof
      assume "list_all2 format_char (f # fs) s"
      then show ?L by (auto simp: list_all2_Cons1)
    next
      assume "\<exists>t. s = t @ [CHR 0x0A] \<and> list_all2 format_char (f # fs) t"
      then obtain t where t: "s = t @ [CHR 0x0A]" "list_all2 format_char (f # fs) t" by blast
      then obtain c t' where "t = c # t'" "format_char f c" "list_all2 format_char fs t'"
        by (auto simp: list_all2_Cons1)
      with t show ?L by auto
    qed
  qed
  finally show ?case .
qed

lemma seq_times_0: "seq (times 0 p) q = q"
  by (rule ext) (simp add: seq_def)

lemma seq_times_Suc: "seq (times (Suc n) p) q = seq p (seq (times n p) q)"
  by (simp only: times_Suc seq_assoc)

lemma cpf_pattern_eq:
  "cpf_pattern = cat (map (\<lambda>f. cls (format_char f)) ''NNN.NNN.NNN-NN'' @ [eol])"
proof -
  have d: "cls (format_char CHR ''N'') = cls digit" by (simp add: format_char_def [abs_def])
  have l: "cls (format_char CHR ''.'') = lit CHR ''.''" "cls (format_char CHR ''-'') = lit CHR ''-''"
    by (simp_all add: format_char_def [abs_def] lit_def)
  show ?thesis
    unfolding cpf_pattern_def
    by (simp only: list.map append.simps d l cat_Cons numeral_3_eq_3 numeral_2_eq_2
          seq_times_Suc seq_times_0)
qed

lemma cpf_pattern_iff:
  "re_match cpf_pattern s \<longleftrightarrow>
     spec_cpf_format s \<or> (\<exists>t. s = t @ [CHR 0x0A] \<and> spec_cpf_format t)"
  unfolding re_match_def cpf_pattern_eq spec_cpf_format_def 
  by (rule cat_format)


lemma many_nonempty: "many P s \<noteq> []"
  by (cases s) simp_all

lemma times_cls_nonempty: "times n (cls P) s \<noteq> [] \<longleftrightarrow> n \<le> length (takeWhile P s)"
proof (induction n arbitrary: s)
  case 0
  show ?case by simp
next
  case (Suc n)
  show ?case
  proof (cases s)
    case Nil
    then show ?thesis by (simp add: seq_def)
  next
    case (Cons c r)
    with Suc.IH [of r] show ?thesis by (simp add: seq_def)
  qed
qed

lemma at_least_nonempty: "at_least n P s \<noteq> [] \<longleftrightarrow> n \<le> length (takeWhile P s)"
proof -
  have "at_least n P s \<noteq> [] \<longleftrightarrow> (\<exists>r\<in>set (times n (cls P) s). True)"
    unfolding at_least_def seq_nonempty by (simp add: many_nonempty)
  also have "\<dots> \<longleftrightarrow> times n (cls P) s \<noteq> []"
    by (cases "times n (cls P) s") auto
  finally show ?thesis by (simp only: times_cls_nonempty)
qed

lemma many_then_cls:
  assumes "\<not> Q (CHR 0x0A)"
  shows "cat [many dot, cls Q, many dot] s \<noteq> [] \<longleftrightarrow> (\<exists>c\<in>set (takeWhile dot s). Q c)"
proof -
  have step: "cat [cls Q, many dot] r \<noteq> [] \<longleftrightarrow> (\<exists>c r'. r = c # r' \<and> Q c)" for r
    using many_nonempty [of dot] by (cases r) (simp_all add: seq_def)
  have "(\<exists>r\<in>set (many dot s). \<exists>c r'. r = c # r' \<and> Q c) \<longleftrightarrow> (\<exists>c\<in>set (takeWhile dot s). Q c)"
  proof (induction s)
    case Nil
    show ?case by simp
  next
    case (Cons a s)
    show ?case
    proof (cases "dot a")
      case True
      with Cons.IH show ?thesis by auto
    next
      case False
      then have "a = CHR 0x0A" by (simp add: dot_def)
      with assms False show ?thesis by simp
    qed
  qed
  moreover have "cat [many dot, cls Q, many dot] s \<noteq> [] \<longleftrightarrow>
      (\<exists>r\<in>set (many dot s). cat [cls Q, many dot] r \<noteq> [])"
    by (simp only: cat.simps seq_nonempty)
  ultimately show ?thesis by (simp only: step)
qed

lemma digit_not_newline: "\<not> digit (CHR 0x0A)"
  by (simp add: digit_def in_range_def)

lemma letter_not_newline: "\<not> letter (CHR 0x0A)"
  by (simp add: letter_def in_range_def)

lemma cat_lookahead: "cat (lookahead p # ps) s \<noteq> [] \<longleftrightarrow> p s \<noteq> [] \<and> cat ps s \<noteq> []"
  by (simp add: seq_def lookahead_def)

lemma senha_pattern_iff:
  "re_match senha_pattern s \<longleftrightarrow>
     8 \<le> length (takeWhile dot s) \<and> (\<exists>c\<in>set (takeWhile dot s). digit c)
       \<and> (\<exists>c\<in>set (takeWhile dot s). letter c)"
proof -
  have "re_match senha_pattern s \<longleftrightarrow>
      at_least 8 dot s \<noteq> [] \<and> cat [many dot, cls digit, many dot] s \<noteq> []
        \<and> cat [many dot, cls letter, many dot] s \<noteq> []"
    unfolding re_match_def senha_pattern_def cat_lookahead by simp
  then show ?thesis
    by (simp only: at_least_nonempty many_then_cls [of digit, OF digit_not_newline]
          many_then_cls [of letter, OF letter_not_newline])
qed

lemma senha_pattern_rejects:
  assumes "length s < 8 \<or> (\<forall>c\<in>set s. \<not> digit c) \<or> (\<forall>c\<in>set s. \<not> letter c)"
  shows "\<not> re_match senha_pattern s"
proof -
  have "length (takeWhile dot s) \<le> length s" by (rule length_takeWhile_le)
  moreover have "set (takeWhile dot s) \<subseteq> set s" by (auto dest: set_takeWhileD)
  ultimately show ?thesis using assms unfolding senha_pattern_iff by fastforce
qed

lemma senha_pattern_accepts:
  assumes "CHR 0x0A \<notin> set s" and "8 \<le> length s"
    and "\<exists>c\<in>set s. digit c" and "\<exists>c\<in>set s. letter c"
  shows "re_match senha_pattern s"
proof -
  from assms(1) have tw: "takeWhile dot s = s"
    by (induction s) (auto simp: dot_def)
  show ?thesis unfolding senha_pattern_iff tw using assms by blast
qed

section \<open>Construction and the national identifier (claim C5)\<close>

text \<open>
  An identifier that is neither of the format nor a text of the format followed by a
  newline yields no object, whatever the other arguments are.
\<close>

lemma bad_cpf_constructs_nothing:
  assumes "\<not> spec_cpf_format c" and "\<not> (\<exists>t. c = t @ [CHR 0x0A] \<and> spec_cpf_format t)"
  shows "User_call L now salt username' nome' sobrenome' c data' email' p endereco' CEP' = None"
proof -
  from assms have "\<not> re_match cpf_pattern c"
    by (simp add: cpf_pattern_iff)
  then show ?thesis
    by (simp add: User_call_def User_new_def)
qed

text \<open>
  Claim C5: for every national identifier that does not match \<open>NNN.NNN.NNN-NN\<close>, the
  construction of a record yields no object. The lemma \<open>cpf_pattern_iff\<close> above says what
  the source accepts: the texts of the format, and also each of them followed by one
  newline, because \<open>$\<close> matches before a final newline. The theorem runs the constructor
  on such an identifier: it has fifteen characters and is not of the format, and the
  constructor returns an object.
\<close>

theorem cpf_with_final_newline_constructs:
  "\<not> spec_cpf_format ''123.456.789-09\<newline>''
   \<and> re_match cpf_pattern ''123.456.789-09\<newline>''
   \<and> User_call L now salt ''ana123'' ''Ana'' ''Silva'' ''123.456.789-09\<newline>'' (1990, 1, 1)
         ''ana@x.com'' ''senha123'' None None \<noteq> None"
proof -
  have f: "\<not> spec_cpf_format ''123.456.789-09\<newline>''"
    by (simp add: spec_cpf_format_def)
  have c: "re_match cpf_pattern ''123.456.789-09\<newline>''"
    by code_simp
  have e: "re_match email_pattern ''ana@x.com''"
    by code_simp
  have p: "re_match senha_pattern ''senha123''"
    by code_simp
  from c e p have "User_new ''ana123'' ''Ana'' ''Silva'' ''123.456.789-09\<newline>'' (1990, 1, 1)
         ''ana@x.com'' ''senha123'' None None = Some ()"
    by (simp add: User_new_def)
  with f c show ?thesis by (simp add: User_call_def)
qed

section \<open>Construction and the password (claim C6)\<close>

text \<open>
  A password that is short, or has no digit, or has no letter yields no object,
  whatever the other arguments are.
\<close>

lemma short_or_plain_senha_constructs_nothing:
  assumes "length p < 8 \<or> (\<forall>c\<in>set p. \<not> digit c) \<or> (\<forall>c\<in>set p. \<not> letter c)"
  shows "User_call L now salt username' nome' sobrenome' cpf' data' email' p endereco' CEP' = None"
  using senha_pattern_rejects [OF assms] by (simp add: User_call_def User_new_def)

text \<open>
  Claim C6: a password shorter than 8 characters, or without a digit, or without a
  letter, yields no object, and any password of at least 8 characters with a digit and a
  letter passes the check. The first half holds (\<open>senha_pattern_rejects\<close>, and
  \<open>short_or_plain_senha_constructs_nothing\<close> above). The second half holds for a
  password without a newline (\<open>senha_pattern_accepts\<close>); the three lookaheads read
  with \<open>.\<close>, which stops at a newline, so they see the first line of the password only.
  The theorem runs the check on a password of ten characters with a digit and letters
  and a newline after the third: the pattern does not match and the constructor returns
  \<open>None\<close>.
\<close>

theorem senha_with_newline_constructs_nothing:
  "8 \<le> length ''abc\<newline>defgh1''
   \<and> (\<exists>c\<in>set ''abc\<newline>defgh1''. digit c) \<and> (\<exists>c\<in>set ''abc\<newline>defgh1''. letter c)
   \<and> \<not> re_match senha_pattern ''abc\<newline>defgh1''
   \<and> User_call L now salt ''ana123'' ''Ana'' ''Silva'' ''123.456.789-09'' (1990, 1, 1)
         ''ana@x.com'' ''abc\<newline>defgh1'' None None = None"
proof -
  have d: "digit CHR ''1''" and l: "letter CHR ''a''"
    by (simp_all add: digit_def letter_def in_range_def)
  have p: "\<not> re_match senha_pattern ''abc\<newline>defgh1''"
    by code_simp
  then have "User_call L now salt ''ana123'' ''Ana'' ''Silva'' ''123.456.789-09'' (1990, 1, 1)
         ''ana@x.com'' ''abc\<newline>defgh1'' None None = None"
    by (simp add: User_call_def User_new_def)
  with d l p show ?thesis by simp
qed

section \<open>Setting and verifying the password (claim C4)\<close>

text \<open>
  \<open>check_password\<close> reads a password through its digest under the cpf of the record,
  and the stored hash is that of the digest of the password that was set.
\<close>

lemma add_password_cpf: "cpf (add_password L salt self p) = cpf self"
  by (simp add: add_password_def)




text \<open>
  The digest has 512 bits and the passwords are without bound, so for every key some
  two passwords have the same digest, whatever function \<open>hmac_sha512\<close> is. No such pair
  is known for HMAC-SHA512. The theorem below therefore speaks of a password \<open>p'\<close> whose
  digest is that of \<open>p\<close> only if \<open>p'\<close> is \<open>p\<close>.
\<close>

lemma digest_collision: "\<exists>p p'. p' \<noteq> p \<and> hmac_sha512 L k p' = hmac_sha512 L k p"
proof (rule ccontr)
  assume "\<not> ?thesis"
  then have "inj (hmac_sha512 L k)"
    by (auto simp: inj_on_def)
  moreover have "finite (range (hmac_sha512 L k))"
    by (rule finite_subset [OF subset_UNIV]) simp
  ultimately have "finite (UNIV :: string set)"
    by (rule finite_imageD [rotated])
  then show False
    using infinite_UNIV_listI by blast
qed




lemma sample_digests_differ:
  "hmac_sha512 sample_library ''123.456.789-09'' ''senha124'' \<noteq>
   hmac_sha512 sample_library ''123.456.789-09'' ''senha123''"
  by (simp add: sample_library_def sample_digest_def)



section \<open>The dictionary and the reload\<close>

text \<open>
  Facts about the operations of the mapping, the ways \<open>write_to_file\<close> and
  \<open>try_read_from_file\<close> go, and what \<open>add_user\<close> computes once the reload it asked for
  has returned. A reload that returns has opened the file of the store.
\<close>

lemma dict_setitem_fresh: "map_of d k = None \<Longrightarrow> dict_setitem d k v = d @ [(k, v)]"
  by (induction d) (auto split: if_splits)

lemma dict_get_setitem: "dict_get (dict_setitem d k v) k = Some v"
  by (induction d) (auto simp: dict_get_def)


lemma scan_username_None: "scan_username d u = None \<longleftrightarrow> (\<forall>v\<in>snd ` set d. username v \<noteq> u)"
  by (induction d u rule: scan_username.induct) auto

lemma scan_username_Some: "scan_username d u = Some v \<Longrightarrow> v \<in> snd ` set d \<and> username v = u"
  by (induction d u rule: scan_username.induct) (auto split: if_splits)

lemma write_to_file_eq:
  "write_to_file J (fs, self) =
     (if can_open J (file_path self) then Inr (fs(file_path self \<mapsto> encode J (db self)), self)
      else Inl (OS_error, (fs, self)))"
  by (simp add: write_to_file_def)

lemma try_read_absent:
  "fs (file_path self) = None \<Longrightarrow>
     try_read_from_file J (fs, self) =
       (if can_open J (file_path self)
        then Inr (fs(file_path self \<mapsto> encode J (db self)), self)
        else Inl (OS_error, (fs, self)))"
  by (simp add: try_read_from_file_def write_to_file_eq)

lemma try_read_present:
  "fs (file_path self) = Some objetos \<Longrightarrow>
     try_read_from_file J (fs, self) =
       (if can_open J (file_path self)
        then (case decode J objetos of
                Raises \<Rightarrow> Inl (Decode_error, (fs, self))
              | A_dict d \<Rightarrow> Inr (fs, self\<lparr>db := d\<rparr>)
              | Not_a_dict \<Rightarrow> Inr (fs, self))
        else Inl (OS_error, (fs, self)))"
  by (simp add: try_read_from_file_def)

lemma try_read_can_open:
  assumes "try_read_from_file J (fs, self) = Inr w'"
  shows "can_open J (file_path self)"
proof (cases "fs (file_path self)")
  case None
  with assms show ?thesis by (simp add: try_read_absent split: if_splits)
next
  case (Some objetos)
  with assms show ?thesis by (simp add: try_read_present split: if_splits)
qed

lemma try_read_file_path:
  assumes "try_read_from_file J (fs, self) = Inr (fs', self')"
  shows "file_path self' = file_path self"
proof (cases "fs (file_path self)")
  case None
  with assms show ?thesis by (simp add: try_read_absent split: if_splits)
next
  case (Some objetos)
  with assms show ?thesis
    by (cases "decode J objetos") (auto simp: try_read_present split: if_splits)
qed

lemma try_read_files:
  assumes "try_read_from_file J (fs, self) = Inr (fs1, self1)"
  shows "fs1 = (if fs (file_path self) = None then fs(file_path self \<mapsto> encode J (db self)) else fs)
    \<and> (fs (file_path self) = None \<longrightarrow> self1 = self)"
proof (cases "fs (file_path self)")
  case None
  with assms show ?thesis by (auto simp: try_read_absent split: if_splits)
next
  case (Some objetos)
  with assms show ?thesis
    by (cases "decode J objetos") (auto simp: try_read_present split: if_splits)
qed

lemma try_read_after_write:
  assumes "decode J (encode J (db self)) = A_dict (db self)"
    and "can_open J (file_path self)"
  shows "try_read_from_file J (fs(file_path self \<mapsto> encode J (db self)), self) =
     Inr (fs(file_path self \<mapsto> encode J (db self)), self)"
  using assms by (simp add: try_read_present [where objetos = "encode J (db self)"])

lemma try_read_again:
  assumes "try_read_from_file J (fs, self) = Inr (fs1, self1)"
    and "decode J (encode J (db self1)) = A_dict (db self1)"
  shows "try_read_from_file J (fs1, self1) = Inr (fs1, self1)"
proof (cases "fs (file_path self)")
  case None
  with assms(1) have "fs1 = fs(file_path self \<mapsto> encode J (db self))" "self1 = self"
    by (auto simp: try_read_absent split: if_splits)
  with assms(2) try_read_can_open [OF assms(1)] show ?thesis
    by (simp add: try_read_after_write)
next
  case (Some objetos)
  with assms(1) try_read_can_open [OF assms(1)] show ?thesis
    by (cases "decode J objetos") (auto simp: try_read_present)
qed

lemma add_user_after_reload:
  assumes "(if update then try_read_from_file J w else Inr w) = Inr (fs, self)"
  shows "add_user J w user update =
     (if dict_get (db self) (cpf user) \<noteq> None then Inr ((PyBool False, PyStr ''CPF''), (fs, self))
      else if scan_username (db self) (nome user) \<noteq> None
        then Inr ((PyBool False, PyStr ''USER''), (fs, self))
      else if can_open J (file_path self)
        then Inr ((PyBool True, PyStr ''SUCCESS''),
             (fs(file_path self \<mapsto> encode J (dict_setitem (db self) (cpf user) user)),
              self\<lparr>db := dict_setitem (db self) (cpf user) user\<rparr>))
      else Inl (OS_error, (fs, self\<lparr>db := dict_setitem (db self) (cpf user) user\<rparr>)))"
  using assms
  by (simp add: add_user_def get_user_by_cpf_def get_user_by_username_def write_to_file_eq)

lemma add_user_raises:
  assumes "(if update then try_read_from_file J w else Inr w) = Inl e"
  shows "add_user J w user update = Inl e"
  using assms by (simp add: add_user_def)

lemma reload_can_open:
  assumes "(if update then try_read_from_file J w else Inr w) = Inr (fs, self)" and update
  shows "can_open J (file_path self)"
proof -
  obtain fs0 self0 where w: "w = (fs0, self0)" by (cases w)
  from assms have r: "try_read_from_file J (fs0, self0) = Inr (fs, self)" by (simp add: w)
  from try_read_can_open [OF r] try_read_file_path [OF r] show ?thesis by simp
qed

text \<open>
  The sample surroundings: the path of the sample store can be opened, the texts used
  below decode as said, the sample store reloads to itself before and after \<open>carla\<close> is
  added, adding \<open>carla\<close> succeeds, and adding \<open>bob\<close>, whose given name is the username
  of \<open>ana\<close>, is refused with the reason \<open>"USER"\<close>.
\<close>

lemma sample_facts:
  "file_path sample_store = sample_path" "db sample_store = [(cpf ana, ana)]"
  "encode sample_pickle = sample_encode" "decode sample_pickle = sample_decode"
  "can_open sample_pickle sample_path" "\<not> can_open sample_pickle ''nodir/users.json''"
  by (simp_all add: sample_store_def sample_pickle_def sample_path_def)

lemma sample_decodes:
  "sample_decode ''[]'' = Not_a_dict" "sample_decode ''{}'' = A_dict []"
  "sample_decode ''not json'' = Raises"
  "sample_decode (sample_encode [(cpf ana, ana)]) = A_dict [(cpf ana, ana)]"
  "sample_decode (sample_encode [(cpf ana, ana), (cpf carla, carla)]) =
     A_dict [(cpf ana, ana), (cpf carla, carla)]"
  by (simp_all add: sample_decode_def sample_dicts_def sample_encode_def ana_def carla_def bob_def)

lemma sample_reload:
  "try_read_from_file sample_pickle (sample_files, sample_store) = Inr (sample_files, sample_store)"
  by (simp add: try_read_present [where objetos = "sample_encode [(cpf ana, ana)]"]
        sample_facts sample_decodes sample_files_def)

lemma sample_reload_2:
  "try_read_from_file sample_pickle (sample_files_2, sample_store_2) =
     Inr (sample_files_2, sample_store_2)"
  by (simp add: try_read_present
          [where objetos = "sample_encode [(cpf ana, ana), (cpf carla, carla)]"]
        sample_pickle_def sample_path_def sample_decodes sample_files_2_def sample_store_2_def)

lemma sample_add_carla:
  "add_user sample_pickle (sample_files, sample_store) carla True =
     Inr ((PyBool True, PyStr ''SUCCESS''), (sample_files_2, sample_store_2))"
proof -
  have r: "(if True then try_read_from_file sample_pickle (sample_files, sample_store)
            else Inr (sample_files, sample_store)) = Inr (sample_files, sample_store)"
    by (simp add: sample_reload)
  show ?thesis
    unfolding add_user_after_reload [OF r]
    by (simp add: dict_get_def sample_store_def sample_files_def sample_store_2_def
          sample_files_2_def sample_pickle_def sample_path_def ana_def carla_def)
qed

lemma sample_add_bob:
  "add_user sample_pickle (sample_files, sample_store) bob True =
     Inr ((PyBool False, PyStr ''USER''), (sample_files, sample_store))"
proof -
  have r: "(if True then try_read_from_file sample_pickle (sample_files, sample_store)
            else Inr (sample_files, sample_store)) = Inr (sample_files, sample_store)"
    by (simp add: sample_reload)
  show ?thesis
    unfolding add_user_after_reload [OF r]
    by (simp add: dict_get_def sample_store_def ana_def bob_def)
qed

section \<open>Reloading from the file (claim C8)\<close>

text \<open>
  Claim C8, as amended: \<open>try_read_from_file\<close> never loses state on bad input, but it
  can raise. When the file is absent and the path can be opened, it creates the file
  with the serialization of the mapping it holds and keeps that mapping. When the text
  of the file decodes to something that is not a \<open>dict\<close>, it changes nothing; when the
  text decodes to a \<open>dict\<close>, that becomes the mapping. When \<open>jsonpickle.decode\<close> raises
  on the text, or the file cannot be opened, the exception leaves \<open>try_read_from_file\<close>,
  which has no handler. It raises in these two cases and in no other, and whenever it
  raises, the mapping and the files are as they were before the call.
\<close>

theorem try_read_from_file_cases:
  "(fs (file_path self) = None \<and> can_open J (file_path self) \<longrightarrow>
      try_read_from_file J (fs, self) = Inr (fs(file_path self \<mapsto> encode J (db self)), self))
   \<and> (fs (file_path self) = Some objetos \<and> can_open J (file_path self)
        \<and> decode J objetos = Not_a_dict \<longrightarrow>
      try_read_from_file J (fs, self) = Inr (fs, self))
   \<and> (fs (file_path self) = Some objetos \<and> can_open J (file_path self)
        \<and> decode J objetos = A_dict d \<longrightarrow>
      try_read_from_file J (fs, self) = Inr (fs, self\<lparr>db := d\<rparr>))
   \<and> (fs (file_path self) = Some objetos \<and> can_open J (file_path self)
        \<and> decode J objetos = Raises \<longrightarrow>
      try_read_from_file J (fs, self) = Inl (Decode_error, (fs, self)))
   \<and> (\<not> can_open J (file_path self) \<longrightarrow>
      try_read_from_file J (fs, self) = Inl (OS_error, (fs, self)))
   \<and> ((\<exists>e w'. try_read_from_file J (fs, self) = Inl (e, w')) =
        (\<not> can_open J (file_path self)
         \<or> (\<exists>content. fs (file_path self) = Some content \<and> decode J content = Raises)))
   \<and> (\<forall>e w'. try_read_from_file J (fs, self) = Inl (e, w') \<longrightarrow> w' = (fs, self))"
proof -
  have absent: "fs (file_path self) = None \<and> can_open J (file_path self) \<longrightarrow>
      try_read_from_file J (fs, self) = Inr (fs(file_path self \<mapsto> encode J (db self)), self)"
    by (simp add: try_read_absent)
  have other: "fs (file_path self) = Some objetos \<and> can_open J (file_path self)
        \<and> decode J objetos = Not_a_dict \<longrightarrow>
      try_read_from_file J (fs, self) = Inr (fs, self)"
    by (simp add: try_read_present)
  have loaded: "fs (file_path self) = Some objetos \<and> can_open J (file_path self)
        \<and> decode J objetos = A_dict d \<longrightarrow>
      try_read_from_file J (fs, self) = Inr (fs, self\<lparr>db := d\<rparr>)"
    by (simp add: try_read_present)
  have malformed: "fs (file_path self) = Some objetos \<and> can_open J (file_path self)
        \<and> decode J objetos = Raises \<longrightarrow>
      try_read_from_file J (fs, self) = Inl (Decode_error, (fs, self))"
    by (simp add: try_read_present)
  have closed: "\<not> can_open J (file_path self) \<longrightarrow>
      try_read_from_file J (fs, self) = Inl (OS_error, (fs, self))"
    by (cases "fs (file_path self)") (simp_all add: try_read_absent try_read_present)
  have exactly: "(\<exists>e w'. try_read_from_file J (fs, self) = Inl (e, w')) =
        (\<not> can_open J (file_path self)
         \<or> (\<exists>content. fs (file_path self) = Some content \<and> decode J content = Raises))"
  proof (cases "fs (file_path self)")
    case None
    then show ?thesis by (simp add: try_read_absent)
  next
    case (Some content)
    then show ?thesis
      by (cases "decode J content") (simp_all add: try_read_present)
  qed
  have untouched: "\<forall>e w'. try_read_from_file J (fs, self) = Inl (e, w') \<longrightarrow> w' = (fs, self)"
  proof (cases "fs (file_path self)")
    case None
    then show ?thesis by (simp add: try_read_absent)
  next
    case (Some content)
    then show ?thesis
      by (cases "decode J content") (simp_all add: try_read_present)
  qed
  from absent other loaded malformed closed exactly untouched show ?thesis
    by (intro conjI)
qed

text \<open>
  The cases on the sample store: no file, a file that holds a list, a file that holds
  the empty mapping, a file that holds no JSON, and a path in a directory that does
  not exist.
\<close>

theorem try_read_from_file_cases_witness:
  "try_read_from_file sample_pickle (Map.empty, sample_store) = Inr (sample_files, sample_store)
   \<and> try_read_from_file sample_pickle ([sample_path \<mapsto> ''[]''], sample_store) =
       Inr ([sample_path \<mapsto> ''[]''], sample_store)
   \<and> try_read_from_file sample_pickle ([sample_path \<mapsto> ''{}''], sample_store) =
       Inr ([sample_path \<mapsto> ''{}''], sample_store\<lparr>db := []\<rparr>)
   \<and> try_read_from_file sample_pickle ([sample_path \<mapsto> ''not json''], sample_store) =
       Inl (Decode_error, ([sample_path \<mapsto> ''not json''], sample_store))
   \<and> try_read_from_file sample_pickle (Map.empty, sample_store\<lparr>file_path := ''nodir/users.json''\<rparr>) =
       Inl (OS_error, (Map.empty, sample_store\<lparr>file_path := ''nodir/users.json''\<rparr>))"
proof -
  note p = sample_facts
  note d = sample_decodes
  have 1: "try_read_from_file sample_pickle (Map.empty, sample_store) =
      Inr (sample_files, sample_store)"
    using try_read_from_file_cases [where fs = Map.empty and self = sample_store
        and J = sample_pickle, THEN conjunct1]
    by (simp add: p sample_files_def)
  have 2: "try_read_from_file sample_pickle ([sample_path \<mapsto> ''[]''], sample_store) =
       Inr ([sample_path \<mapsto> ''[]''], sample_store)"
    using try_read_from_file_cases [where fs = "[sample_path \<mapsto> ''[]'']" and self = sample_store
        and objetos = "''[]''" and J = sample_pickle, THEN conjunct2, THEN conjunct1]
    by (simp add: p d)
  have 3: "try_read_from_file sample_pickle ([sample_path \<mapsto> ''{}''], sample_store) =
       Inr ([sample_path \<mapsto> ''{}''], sample_store\<lparr>db := []\<rparr>)"
    using try_read_from_file_cases [where fs = "[sample_path \<mapsto> ''{}'']" and self = sample_store
        and objetos = "''{}''" and J = sample_pickle and d = "[]",
        THEN conjunct2, THEN conjunct2, THEN conjunct1]
    by (simp add: p d)
  have 4: "try_read_from_file sample_pickle ([sample_path \<mapsto> ''not json''], sample_store) =
       Inl (Decode_error, ([sample_path \<mapsto> ''not json''], sample_store))"
    using try_read_from_file_cases [where fs = "[sample_path \<mapsto> ''not json'']"
        and self = sample_store and objetos = "''not json''" and J = sample_pickle,
        THEN conjunct2, THEN conjunct2, THEN conjunct2, THEN conjunct1]
    by (simp add: p d)
  have 5: "try_read_from_file sample_pickle
       (Map.empty, sample_store\<lparr>file_path := ''nodir/users.json''\<rparr>) =
       Inl (OS_error, (Map.empty, sample_store\<lparr>file_path := ''nodir/users.json''\<rparr>))"
    using try_read_from_file_cases [where fs = Map.empty
        and self = "sample_store\<lparr>file_path := ''nodir/users.json''\<rparr>" and J = sample_pickle,
        THEN conjunct2, THEN conjunct2, THEN conjunct2, THEN conjunct2, THEN conjunct1]
    by (simp add: p)
  from 1 2 3 4 5 show ?thesis by (intro conjI)
qed

text \<open>
  Claim C8 as stated says that the reload never raises and that an absent file is
  created empty. On a file that holds \<open>not json\<close> the reload raises; with no file, the
  store that holds \<open>ana\<close> writes a file that is not the serialization of the empty
  mapping.
\<close>

theorem try_read_from_file_raises:
  "try_read_from_file sample_pickle ([sample_path \<mapsto> ''not json''], sample_store) =
     Inl (Decode_error, ([sample_path \<mapsto> ''not json''], sample_store))
   \<and> try_read_from_file sample_pickle (Map.empty, sample_store) = Inr (sample_files, sample_store)
   \<and> sample_files sample_path \<noteq> Some (encode sample_pickle [])"
proof -
  have 1: "try_read_from_file sample_pickle ([sample_path \<mapsto> ''not json''], sample_store) =
     Inl (Decode_error, ([sample_path \<mapsto> ''not json''], sample_store))"
    by (simp add: try_read_present [where objetos = "''not json''"] sample_facts sample_decodes)
  have 2: "try_read_from_file sample_pickle (Map.empty, sample_store) =
      Inr (sample_files, sample_store)"
    by (simp add: try_read_absent sample_facts sample_files_def)
  have 3: "sample_files sample_path \<noteq> Some (encode sample_pickle [])"
    by (simp add: sample_files_def sample_facts sample_encode_def)
  from 1 2 3 show ?thesis by (intro conjI)
qed

section \<open>Persistence round trip (claim C7)\<close>



section \<open>Removing an identifier that is not there (claim C9)\<close>




section \<open>The reason USER (claim C2)\<close>

text \<open>
  Claim C2: once the reload has returned, \<open>add_user\<close> returns \<open>(False, "USER")\<close> exactly
  when no record has the cpf of the new record and some record of the mapping has, as
  its username, the given name \<open>nome\<close> of the new record; in particular it does so
  whenever it does not return \<open>(False, "CPF")\<close> and \<open>get_user_by_username\<close> finds a
  record for that given name.
\<close>

theorem add_user_USER:
  assumes "(if update then try_read_from_file J w else Inr w) = Inr (fs, self)"
  shows "(add_user J w user update = Inr ((PyBool False, PyStr ''USER''), (fs, self))) =
           (dict_get (db self) (cpf user) = None
            \<and> (\<exists>v\<in>snd ` set (db self). username v = nome user))
    \<and> (add_user J w user update \<noteq> Inr ((PyBool False, PyStr ''CPF''), (fs, self))
         \<and> get_user_by_username J (fs, self) (nome user) False = Inr (Some found, (fs, self))
         \<longrightarrow> add_user J w user update = Inr ((PyBool False, PyStr ''USER''), (fs, self)))"
proof -
  note a = add_user_after_reload [OF assms, of user]
  have s: "scan_username (db self) (nome user) \<noteq> None \<longleftrightarrow>
      (\<exists>v\<in>snd ` set (db self). username v = nome user)"
    by (simp add: scan_username_None)
  have 1: "(add_user J w user update = Inr ((PyBool False, PyStr ''USER''), (fs, self))) =
           (dict_get (db self) (cpf user) = None
            \<and> (\<exists>v\<in>snd ` set (db self). username v = nome user))"
    unfolding a s [symmetric] by simp
  have 2: "add_user J w user update \<noteq> Inr ((PyBool False, PyStr ''CPF''), (fs, self))
         \<and> get_user_by_username J (fs, self) (nome user) False = Inr (Some found, (fs, self))
         \<longrightarrow> add_user J w user update = Inr ((PyBool False, PyStr ''USER''), (fs, self))"
    unfolding a by (simp add: get_user_by_username_def)
  from 1 2 show ?thesis by (rule conjI)
qed

text \<open>
  The sample store holds \<open>ana\<close>, whose username is the given name of \<open>bob\<close>.
\<close>

theorem add_user_USER_witness:
  "try_read_from_file sample_pickle (sample_files, sample_store) = Inr (sample_files, sample_store)
   \<and> dict_get (db sample_store) (cpf bob) = None
   \<and> get_user_by_username sample_pickle (sample_files, sample_store) (nome bob) False =
        Inr (Some ana, (sample_files, sample_store))
   \<and> add_user sample_pickle (sample_files, sample_store) bob True =
        Inr ((PyBool False, PyStr ''USER''), (sample_files, sample_store))"
proof -
  have r: "(if True then try_read_from_file sample_pickle (sample_files, sample_store)
            else Inr (sample_files, sample_store)) = Inr (sample_files, sample_store)"
    by (simp add: sample_reload)
  have c: "dict_get (db sample_store) (cpf bob) = None"
    by (simp add: dict_get_def sample_defs)
  have n: "\<exists>v\<in>snd ` set (db sample_store). username v = nome bob"
    by (simp add: sample_defs)
  have g: "get_user_by_username sample_pickle (sample_files, sample_store) (nome bob) False =
        Inr (Some ana, (sample_files, sample_store))"
    by (simp add: get_user_by_username_def sample_store_def ana_def bob_def)
  from add_user_USER [OF r, of bob ana, THEN conjunct1] c n
  have "add_user sample_pickle (sample_files, sample_store) bob True =
        Inr ((PyBool False, PyStr ''USER''), (sample_files, sample_store))"
    by simp
  with r c g show ?thesis by simp
qed

section \<open>A successful add (claim C3)\<close>

text \<open>
  Claim C3, as amended: when the mapping has neither the cpf of the new record nor a
  username equal to its given name, \<open>add_user\<close> puts the record in the mapping under its
  cpf, as the last key. Where the path can be opened it then writes the serialization
  of the whole new mapping to the file and returns the pair \<open>(True, "SUCCESS")\<close>, the
  truth value first and the reason second; where the path cannot be opened the write
  raises, with the record already in the mapping.
\<close>

theorem add_user_success:
  assumes "(if update then try_read_from_file J w else Inr w) = Inr (fs, self)"
    and "dict_get (db self) (cpf user) = None"
    and "scan_username (db self) (nome user) = None"
  shows "add_user J w user update =
           (if can_open J (file_path self)
            then Inr ((PyBool True, PyStr ''SUCCESS''),
                   (fs(file_path self \<mapsto> encode J (db self @ [(cpf user, user)])),
                    self\<lparr>db := db self @ [(cpf user, user)]\<rparr>))
            else Inl (OS_error, (fs, self\<lparr>db := db self @ [(cpf user, user)]\<rparr>)))
    \<and> dict_get (db self @ [(cpf user, user)]) (cpf user) = Some user"
proof -
  from assms(2) have d: "dict_setitem (db self) (cpf user) user = db self @ [(cpf user, user)]"
    by (simp add: dict_setitem_fresh dict_get_def)
  from add_user_after_reload [OF assms(1), of user] assms(2,3)
  have "add_user J w user update =
           (if can_open J (file_path self)
            then Inr ((PyBool True, PyStr ''SUCCESS''),
                   (fs(file_path self \<mapsto> encode J (db self @ [(cpf user, user)])),
                    self\<lparr>db := db self @ [(cpf user, user)]\<rparr>))
            else Inl (OS_error, (fs, self\<lparr>db := db self @ [(cpf user, user)]\<rparr>)))"
    unfolding d by simp
  moreover from dict_get_setitem [of "db self" "cpf user" user]
  have "dict_get (db self @ [(cpf user, user)]) (cpf user) = Some user"
    unfolding d .
  ultimately show ?thesis by (rule conjI)
qed

text \<open>Adding \<open>carla\<close> to the sample store.\<close>

theorem add_user_success_witness:
  "try_read_from_file sample_pickle (sample_files, sample_store) = Inr (sample_files, sample_store)
   \<and> dict_get (db sample_store) (cpf carla) = None
   \<and> scan_username (db sample_store) (nome carla) = None
   \<and> add_user sample_pickle (sample_files, sample_store) carla True =
        Inr ((PyBool True, PyStr ''SUCCESS''),
             ([sample_path \<mapsto> sample_encode [(cpf ana, ana), (cpf carla, carla)]],
              \<lparr>db = [(cpf ana, ana), (cpf carla, carla)], file_path = sample_path\<rparr>))
   \<and> dict_get [(cpf ana, ana), (cpf carla, carla)] (cpf carla) = Some carla"
proof -
  have r: "(if True then try_read_from_file sample_pickle (sample_files, sample_store)
            else Inr (sample_files, sample_store)) = Inr (sample_files, sample_store)"
    by (simp add: sample_reload)
  have c: "dict_get (db sample_store) (cpf carla) = None"
    by (simp add: dict_get_def sample_facts ana_def carla_def)
  have n: "scan_username (db sample_store) (nome carla) = None"
    by (simp add: sample_facts ana_def carla_def)
  have p: "sample_store\<lparr>db := [(cpf ana, ana), (cpf carla, carla)]\<rparr> =
       \<lparr>db = [(cpf ana, ana), (cpf carla, carla)], file_path = sample_path\<rparr>"
    "sample_files(sample_path \<mapsto> x) = [sample_path \<mapsto> x]" for x
    by (simp_all add: sample_store_def sample_files_def)
  from add_user_success [OF r c n] sample_reload c n show ?thesis
    by (simp add: p sample_facts)
qed

text \<open>
  Claim C3 as stated gives the returned pair as \<open>("SUCCESS", True)\<close>. The pair that a
  successful add returns has its components the other way round.
\<close>

theorem add_user_success_pair_order:
  "add_user sample_pickle (Map.empty, \<lparr>db = [], file_path = sample_path\<rparr>) ana True =
     Inr ((PyBool True, PyStr ''SUCCESS''), (sample_files, sample_store))
   \<and> (PyBool True, PyStr ''SUCCESS'') \<noteq> (PyStr ''SUCCESS'', PyBool True)"
proof -
  have o: "can_open sample_pickle sample_path" by (rule sample_facts)
  have r: "(if True then try_read_from_file sample_pickle
              (Map.empty, \<lparr>db = [], file_path = sample_path\<rparr>)
            else Inr (Map.empty, \<lparr>db = [], file_path = sample_path\<rparr>)) =
           Inr ([sample_path \<mapsto> encode sample_pickle []], \<lparr>db = [], file_path = sample_path\<rparr>)"
    using o by (simp add: try_read_absent)
  have "add_user sample_pickle (Map.empty, \<lparr>db = [], file_path = sample_path\<rparr>) ana True =
     Inr ((PyBool True, PyStr ''SUCCESS''), (sample_files, sample_store))"
    unfolding add_user_after_reload [OF r]
    using o by (simp add: dict_get_def sample_files_def sample_store_def sample_facts(3))
  then show ?thesis by simp
qed

section \<open>A failed add leaves the store as loaded (claim C10)\<close>

text \<open>
  Claim C10, as amended: when \<open>add_user\<close> returns \<open>False\<close> with a reason, the reason is
  \<open>"CPF"\<close> or \<open>"USER"\<close>, and the store and the files are exactly as the reload left
  them: nothing is inserted and the insertion path writes nothing. The files are those
  from before the call, except that a reload that found no file has created it, with
  the serialization of the mapping held in memory.
\<close>

theorem add_user_failure_state:
  assumes "add_user J (fs, self) user update = Inr ((PyBool False, reason), (fs', self'))"
  shows "(if update then try_read_from_file J (fs, self) else Inr (fs, self)) = Inr (fs', self')
    \<and> (reason = PyStr ''CPF'' \<or> reason = PyStr ''USER'')
    \<and> fs' = (if update \<and> fs (file_path self) = None
              then fs(file_path self \<mapsto> encode J (db self)) else fs)
    \<and> (update \<and> fs (file_path self) \<noteq> None \<longrightarrow> fs' = fs)
    \<and> (update \<and> fs (file_path self) = None \<longrightarrow> self' = self)
    \<and> (\<not> update \<longrightarrow> fs' = fs \<and> self' = self)"
proof (cases "if update then try_read_from_file J (fs, self) else Inr (fs, self)")
  case (Inl e)
  then have "add_user J (fs, self) user update = Inl e" by (rule add_user_raises)
  with assms show ?thesis by simp
next
  case (Inr w1)
  obtain fs1 self1 where w1: "w1 = (fs1, self1)" by (cases w1)
  note r = Inr [unfolded w1]
  from assms add_user_after_reload [OF r, of user]
  have eq: "fs' = fs1" "self' = self1" and reason: "reason = PyStr ''CPF'' \<or> reason = PyStr ''USER''"
    by (auto split: if_splits)
  show ?thesis
  proof (cases update)
    case True
    with r have t: "try_read_from_file J (fs, self) = Inr (fs1, self1)" by simp
    from try_read_files [OF t] True r reason show ?thesis
      unfolding eq by auto
  next
    case False
    with r reason show ?thesis unfolding eq by auto
  qed
qed

text \<open>A duplicate cpf on the sample store, whose file exists.\<close>

theorem add_user_failure_state_witness:
  "add_user sample_pickle (sample_files, sample_store) ana True =
     Inr ((PyBool False, PyStr ''CPF''), (sample_files, sample_store))
   \<and> try_read_from_file sample_pickle (sample_files, sample_store) =
        Inr (sample_files, sample_store)
   \<and> sample_files (file_path sample_store) \<noteq> None"
proof -
  have r: "(if True then try_read_from_file sample_pickle (sample_files, sample_store)
            else Inr (sample_files, sample_store)) = Inr (sample_files, sample_store)"
    by (simp add: sample_reload)
  have a: "add_user sample_pickle (sample_files, sample_store) ana True =
     Inr ((PyBool False, PyStr ''CPF''), (sample_files, sample_store))"
    unfolding add_user_after_reload [OF r] by (simp add: dict_get_def sample_facts)
  have f: "sample_files (file_path sample_store) \<noteq> None"
    by (simp add: sample_facts sample_files_def)
  from add_user_failure_state [OF a] a f show ?thesis by simp
qed

text \<open>
  Claim C10 as stated says that the call does not write the file. With no file at the
  path, the failing call leaves one behind.
\<close>

theorem add_user_failure_creates_file:
  "add_user sample_pickle (Map.empty, sample_store) ana True =
     Inr ((PyBool False, PyStr ''CPF''), (sample_files, sample_store))
   \<and> sample_files \<noteq> Map.empty
   \<and> sample_files sample_path = Some (encode sample_pickle (db sample_store))"
proof -
  have r: "(if True then try_read_from_file sample_pickle (Map.empty, sample_store)
            else Inr (Map.empty, sample_store)) = Inr (sample_files, sample_store)"
    by (simp add: try_read_absent sample_facts sample_files_def)
  have 1: "add_user sample_pickle (Map.empty, sample_store) ana True =
     Inr ((PyBool False, PyStr ''CPF''), (sample_files, sample_store))"
    unfolding add_user_after_reload [OF r] by (simp add: dict_get_def sample_facts)
  have 2: "sample_files \<noteq> Map.empty"
    by (simp add: sample_files_def)
  have 3: "sample_files sample_path = Some (encode sample_pickle (db sample_store))"
    by (simp add: sample_files_def sample_facts)
  from 1 2 3 show ?thesis by (intro conjI)
qed

section \<open>The reason CPF (claim C1)\<close>

text \<open>
  Claim C1, as amended. \<open>add_user\<close> returns \<open>(False, "CPF")\<close> whenever the mapping, as
  held after the reload the call asked for, has a record under the cpf of the new one.
  And when a call of \<open>add_user\<close> has returned with a reason other than \<open>"USER"\<close>, a
  second call with a record of the same cpf returns \<open>(False, "CPF")\<close> and changes
  nothing; where the calls reload, \<open>jsonpickle\<close> is taken to read back the mapping that
  the first call left from the text it writes for it.
\<close>

theorem add_user_CPF:
  "((if update then try_read_from_file J w else Inr w) = Inr (fs, self)
     \<and> dict_get (db self) (cpf user) \<noteq> None
     \<longrightarrow> add_user J w user update = Inr ((PyBool False, PyStr ''CPF''), (fs, self)))
   \<and> (add_user J w r1 update = Inr ((ok, reason), w1) \<and> reason \<noteq> PyStr ''USER''
       \<and> cpf r2 = cpf r1
       \<and> (update \<longrightarrow> decode J (encode J (db (snd w1))) = A_dict (db (snd w1)))
     \<longrightarrow> add_user J w1 r2 update = Inr ((PyBool False, PyStr ''CPF''), w1))"
proof (intro conjI impI)
  assume "(if update then try_read_from_file J w else Inr w) = Inr (fs, self)
     \<and> dict_get (db self) (cpf user) \<noteq> None"
  then show "add_user J w user update = Inr ((PyBool False, PyStr ''CPF''), (fs, self))"
    by (simp add: add_user_after_reload [of update J w fs self])
next
  assume a: "add_user J w r1 update = Inr ((ok, reason), w1) \<and> reason \<noteq> PyStr ''USER''
       \<and> cpf r2 = cpf r1
       \<and> (update \<longrightarrow> decode J (encode J (db (snd w1))) = A_dict (db (snd w1)))"
  then have first: "add_user J w r1 update = Inr ((ok, reason), w1)"
    and reason: "reason \<noteq> PyStr ''USER''" and cpf: "cpf r2 = cpf r1"
    and rt: "update \<Longrightarrow> decode J (encode J (db (snd w1))) = A_dict (db (snd w1))"
    by simp_all
  obtain fs1 self1 where w1: "w1 = (fs1, self1)" by (cases w1)
  have "\<exists>fs0 self0. (if update then try_read_from_file J w else Inr w) = Inr (fs0, self0)"
  proof (cases "if update then try_read_from_file J w else Inr w")
    case (Inl e)
    then have "add_user J w r1 update = Inl e" by (rule add_user_raises)
    with first show ?thesis by simp
  next
    case (Inr w0)
    then show ?thesis by (cases w0) simp
  qed
  then obtain fs0 self0
    where r0: "(if update then try_read_from_file J w else Inr w) = Inr (fs0, self0)"
    by blast
  note a0 = add_user_after_reload [OF r0, of r1]
  have present: "dict_get (db self1) (cpf r2) \<noteq> None"
    and again: "(if update then try_read_from_file J w1 else Inr w1) = Inr (fs1, self1)"
  proof -
    have "dict_get (db self1) (cpf r2) \<noteq> None
      \<and> (if update then try_read_from_file J w1 else Inr w1) = Inr (fs1, self1)"
    proof (cases "dict_get (db self0) (cpf r1) \<noteq> None")
      case True
      with a0 have "add_user J w r1 update = Inr ((PyBool False, PyStr ''CPF''), (fs0, self0))"
        by simp
      with first have same: "fs1 = fs0" "self1 = self0"
        by (simp_all add: w1)
      have "(if update then try_read_from_file J w1 else Inr w1) = Inr (fs1, self1)"
      proof (cases update)
        case True
        with r0 same have "try_read_from_file J (fst w, snd w) = Inr (fs1, self1)" by simp
        from try_read_again [OF this] rt [OF True] True show ?thesis by (simp add: w1)
      next
        case False
        then show ?thesis by (simp add: w1)
      qed
      with True same cpf show ?thesis by simp
    next
      case False
      then have absent: "dict_get (db self0) (cpf r1) = None" by simp
      show ?thesis
      proof (cases "scan_username (db self0) (nome r1) \<noteq> None")
        case True
        with a0 absent
        have "add_user J w r1 update = Inr ((PyBool False, PyStr ''USER''), (fs0, self0))"
          by simp
        with first reason show ?thesis by simp
      next
        case False
        with a0 absent have eq: "add_user J w r1 update =
            (if can_open J (file_path self0)
             then Inr ((PyBool True, PyStr ''SUCCESS''),
               (fs0(file_path self0 \<mapsto> encode J (dict_setitem (db self0) (cpf r1) r1)),
                self0\<lparr>db := dict_setitem (db self0) (cpf r1) r1\<rparr>))
             else Inl (OS_error, (fs0, self0\<lparr>db := dict_setitem (db self0) (cpf r1) r1\<rparr>)))"
          by simp
        from eq first have opens: "can_open J (file_path self0)"
          by (cases "can_open J (file_path self0)") simp_all
        from eq first opens
        have new: "fs1 = fs0(file_path self0 \<mapsto> encode J (dict_setitem (db self0) (cpf r1) r1))"
          "self1 = self0\<lparr>db := dict_setitem (db self0) (cpf r1) r1\<rparr>"
          by (simp_all add: w1)
        have p: "file_path self1 = file_path self0"
          "db self1 = dict_setitem (db self0) (cpf r1) r1"
          by (simp_all add: new)
        have "(if update then try_read_from_file J w1 else Inr w1) = Inr (fs1, self1)"
        proof (cases update)
          case True
          from rt [OF True] have "decode J (encode J (db self1)) = A_dict (db self1)"
            by (simp add: w1)
          moreover from opens have "can_open J (file_path self1)"
            by (simp add: p)
          ultimately have "try_read_from_file J
              (fs0(file_path self1 \<mapsto> encode J (db self1)), self1) =
              Inr (fs0(file_path self1 \<mapsto> encode J (db self1)), self1)"
            by (rule try_read_after_write)
          then have
            "try_read_from_file J (fs1, self1) = Inr (fs1, self1)"
            unfolding new(1) p .
          with True show ?thesis by (simp add: w1)
        next
          case False
          then show ?thesis by (simp add: w1)
        qed
        moreover have "dict_get (db self1) (cpf r2) \<noteq> None"
          unfolding p cpf by (simp add: dict_get_setitem)
        ultimately show ?thesis by simp
      qed
    qed
    then show "dict_get (db self1) (cpf r2) \<noteq> None"
      and "(if update then try_read_from_file J w1 else Inr w1) = Inr (fs1, self1)"
      by simp_all
  qed
  from add_user_after_reload [OF again, of r2] present
  show "add_user J w1 r2 update = Inr ((PyBool False, PyStr ''CPF''), w1)"
    by (simp add: w1)
qed

text \<open>
  The amended claim on the sample store: \<open>ana\<close> is refused, her cpf being there; and
  once \<open>carla\<close> has been added, \<open>bob\<close>, who has the cpf of \<open>carla\<close>, is refused too.
\<close>

theorem add_user_CPF_witness:
  "try_read_from_file sample_pickle (sample_files, sample_store) = Inr (sample_files, sample_store)
   \<and> dict_get (db sample_store) (cpf ana) = Some ana
   \<and> add_user sample_pickle (sample_files, sample_store) ana True =
        Inr ((PyBool False, PyStr ''CPF''), (sample_files, sample_store))
   \<and> add_user sample_pickle (sample_files, sample_store) carla True =
        Inr ((PyBool True, PyStr ''SUCCESS''), (sample_files_2, sample_store_2))
   \<and> cpf bob = cpf carla
   \<and> decode sample_pickle (encode sample_pickle (db sample_store_2)) = A_dict (db sample_store_2)
   \<and> add_user sample_pickle (sample_files_2, sample_store_2) bob True =
        Inr ((PyBool False, PyStr ''CPF''), (sample_files_2, sample_store_2))"
proof -
  have r: "(if True then try_read_from_file sample_pickle (sample_files, sample_store)
            else Inr (sample_files, sample_store)) = Inr (sample_files, sample_store)"
    by (simp add: sample_reload)
  have g: "dict_get (db sample_store) (cpf ana) = Some ana"
    by (simp add: dict_get_def sample_store_def)
  have c: "cpf bob = cpf carla"
    by (simp add: bob_def carla_def)
  have rt: "decode sample_pickle (encode sample_pickle (db sample_store_2)) =
      A_dict (db sample_store_2)"
    by (simp add: sample_defs)
  note t1 = add_user_CPF [where update = True and J = sample_pickle
      and w = "(sample_files, sample_store)" and fs = sample_files and self = sample_store
      and user = ana, THEN conjunct1, THEN mp]
  note t2 = add_user_CPF [where update = True and J = sample_pickle
      and w = "(sample_files, sample_store)" and ?r1.0 = carla and ?r2.0 = bob
      and ok = "PyBool True" and reason = "PyStr ''SUCCESS''"
      and ?w1.0 = "(sample_files_2, sample_store_2)", THEN conjunct2, THEN mp]
  have 1: "add_user sample_pickle (sample_files, sample_store) ana True =
        Inr ((PyBool False, PyStr ''CPF''), (sample_files, sample_store))"
    by (rule t1) (simp add: sample_reload g)
  have 2: "add_user sample_pickle (sample_files_2, sample_store_2) bob True =
        Inr ((PyBool False, PyStr ''CPF''), (sample_files_2, sample_store_2))"
    by (rule t2) (simp add: sample_add_carla c rt)
  from sample_reload g 1 sample_add_carla c rt 2 show ?thesis by (intro conjI)
qed

text \<open>
  Claim C1 as stated speaks of every store and every two records of one cpf. On the
  sample store the first of two such records, \<open>bob\<close>, is refused with the reason
  \<open>"USER"\<close> and so is not inserted; the second, \<open>carla\<close>, is then added with success
  where the claim says \<open>(False, "CPF")\<close>.
\<close>

theorem second_add_user_succeeds:
  "cpf carla = cpf bob
   \<and> add_user sample_pickle (sample_files, sample_store) bob True =
        Inr ((PyBool False, PyStr ''USER''), (sample_files, sample_store))
   \<and> add_user sample_pickle (sample_files, sample_store) carla True =
        Inr ((PyBool True, PyStr ''SUCCESS''), (sample_files_2, sample_store_2))"
proof -
  have "cpf carla = cpf bob" by (simp add: bob_def carla_def)
  with sample_add_bob sample_add_carla show ?thesis by (intro conjI)
qed

end
